theory Spec2Isabelle
  imports Main "HOL-Library.Sublist"
begin

section \<open>Cloud functions of the chat application (functions/index.js)\<close>

text \<open>
  The three handlers of \<^verbatim>\<open>functions/index.js\<close> (\<^verbatim>\<open>addWelcomeMessages\<close>,
  \<^verbatim>\<open>blurOffensiveImages\<close>, \<^verbatim>\<open>sendNotifications\<close>) and their two helpers
  (\<^verbatim>\<open>blurImage\<close>, \<^verbatim>\<open>cleanupTokens\<close>) are embedded as functions on an explicit
  world: the storage bucket, the local file system, the two Firestore collections and
  the sequence of calls made so far. A rejected promise or a thrown exception is the
  value \<open>Inl e\<close>, returned together with the world as it is at that moment.
\<close>

subsection \<open>Data\<close>

type_synonym blob = string

datatype exn =
    ServiceError string
  | TypeError
  | InvalidArgument
  | NotFound
  | ENOENT

record safeSearchAnnotation =
  adult :: "string option"
  violence :: "string option"

record object_metadata =
  bucket :: string
  object_name :: string

record user_record =
  displayName :: "string option"

record message =
  name :: "string option"
  profilePicUrl :: "string option"
  text_field :: "string option"
  imageUrl :: "string option"
  timestamp :: "nat option"
  moderated :: bool

record notification =
  title :: string
  body :: string
  icon :: string
  click_action :: string

record messagingError =
  code :: string

record sendResult =
  error :: "messagingError option"

datatype event =
    ConsoleLog "string list"
  | ConsoleError "string list"
  | SafeSearchDetection string
  | Download string string
  | SpawnConvert string
  | Upload string string
  | UnlinkSync string
  | DocAdd string message
  | DocUpdateModerated string string
  | DocDelete string string
  | CollectionGet string
  | SendToDevice "string list" notification

text \<open>
  The world of one invocation. \<open>storage\<close> is the default bucket (object path to
  content), \<open>localfs\<close> the instance's file system, \<open>messages\<close> and \<open>fcmTokens\<close>
  the two Firestore collections (the second by its document ids, in query order), and
  \<open>trace\<close> every call and log line issued, oldest first.
\<close>

record world =
  storage :: "string \<rightharpoonup> blob"
  localfs :: "string \<rightharpoonup> blob"
  messages :: "string \<rightharpoonup> message"
  fcmTokens :: "string list"
  trace :: "event list"

text \<open>
  What the external collaborators answer. Each fault field gives the rejection of the
  call with that argument, if any; \<open>convert\<close> is ImageMagick's blur on a file content;
  \<open>tmpdir\<close>, \<open>autoId\<close>, \<open>serverTimestamp\<close> and \<open>GCLOUD_PROJECT\<close> are the values of
  \<^verbatim>\<open>os.tmpdir()\<close>, of the identifier Firestore gives an added document, of
  \<^verbatim>\<open>FieldValue.serverTimestamp()\<close> and of the environment variable.
\<close>

record services =
  safeSearchDetection :: "string \<Rightarrow> exn + safeSearchAnnotation option"
  download_fault :: "string \<Rightarrow> exn option"
  convert :: "blob \<Rightarrow> exn + blob"
  upload_fault :: "string \<Rightarrow> exn option"
  add_fault :: "exn option"
  update_fault :: "string \<Rightarrow> exn option"
  delete_fault :: "string \<Rightarrow> exn option"
  get_fault :: "exn option"
  sendToDevice :: "string list \<Rightarrow> notification \<Rightarrow> exn + sendResult list"
  tmpdir :: string
  autoId :: string
  serverTimestamp :: nat
  GCLOUD_PROJECT :: "string option"

type_synonym 'a io = "world \<Rightarrow> (exn + 'a) \<times> world"

subsection \<open>JavaScript values and library functions\<close>

text \<open>A value that is \<^verbatim>\<open>undefined\<close> or the empty string is falsy.\<close>

definition truthy :: "string option \<Rightarrow> bool" where
  "truthy v = (case v of None \<Rightarrow> False | Some s \<Rightarrow> s \<noteq> [])"

text \<open>\<^verbatim>\<open>v || d\<close> on strings.\<close>

definition or_default :: "string option \<Rightarrow> string \<Rightarrow> string" where
  "or_default v d = (case v of None \<Rightarrow> d | Some s \<Rightarrow> if s \<noteq> [] then s else d)"

text \<open>A value inside a template literal: \<^verbatim>\<open>undefined\<close> prints as its name.\<close>

definition template_str :: "string option \<Rightarrow> string" where
  "template_str v = (case v of None \<Rightarrow> ''undefined'' | Some s \<Rightarrow> s)"

text \<open>\<^verbatim>\<open>xs[i]\<close>: out of range is \<^verbatim>\<open>undefined\<close>.\<close>

definition nth_opt :: "'a list \<Rightarrow> nat \<Rightarrow> 'a option" where
  "nth_opt xs i = (if i < length xs then Some (xs ! i) else None)"

text \<open>\<^verbatim>\<open>path.sep\<close> on the POSIX hosts the functions run on.\<close>

definition path_sep :: char where
  "path_sep = CHR ''/''"

text \<open>\<^verbatim>\<open>s.split(c)\<close> for a one-character separator: empty fields are kept.\<close>

fun js_split :: "char \<Rightarrow> string \<Rightarrow> string list" where
  "js_split c [] = [[]]"
| "js_split c (x # xs) =
     (if x = c then [] # js_split c xs
      else (case js_split c xs of [] \<Rightarrow> [[x]] | s # ss \<Rightarrow> (x # s) # ss))"

text \<open>
  \<^verbatim>\<open>path.basename\<close>: trailing separators are dropped, then what follows the last
  separator is returned. \<^verbatim>\<open>path.join\<close> of the scratch directory and that name (the
  normalisation of dot segments is left out: the name of the scratch file matters to
  no property below, only that it is one fixed path during the invocation).
\<close>

definition basename :: "string \<Rightarrow> string" where
  "basename p =
     rev (takeWhile (\<lambda>c. c \<noteq> path_sep) (dropWhile (\<lambda>c. c = path_sep) (rev p)))"

definition path_join :: "string \<Rightarrow> string \<Rightarrow> string" where
  "path_join a b = (if b = [] then a else a @ [path_sep] @ b)"

text \<open>
  Modelled from the spec: the table \<^verbatim>\<open>Vision.types.Likelihood\<close> of the client library,
  which is not part of the repository. The spec gives the six levels in their order,
  UNKNOWN < VERY_UNLIKELY < UNLIKELY < POSSIBLE < LIKELY < VERY_LIKELY.
\<close>

definition Likelihood_table :: "(string \<times> nat) list" where
  "Likelihood_table =
     [(''UNKNOWN'', 0), (''VERY_UNLIKELY'', 1), (''UNLIKELY'', 2),
      (''POSSIBLE'', 3), (''LIKELY'', 4), (''VERY_LIKELY'', 5)]"

text \<open>
  \<^verbatim>\<open>Likelihood[k]\<close>: a key that names no level (also a missing one) gives no number.
\<close>

definition Likelihood :: "string option \<Rightarrow> nat option" where
  "Likelihood k = (case k of None \<Rightarrow> None | Some s \<Rightarrow> map_of Likelihood_table s)"

text \<open>\<^verbatim>\<open>a >= b\<close>: a side that is not a number makes the comparison false.\<close>

definition js_ge :: "nat option \<Rightarrow> nat option \<Rightarrow> bool" where
  "js_ge a b = (case a of None \<Rightarrow> False
                | Some x \<Rightarrow> (case b of None \<Rightarrow> False | Some y \<Rightarrow> y \<le> x))"

subsection \<open>Sequencing\<close>

text \<open>Statements run in order; the first one that throws ends the function.\<close>

fun run_all :: "unit io list \<Rightarrow> unit io" where
  "run_all [] w = (Inr (), w)"
| "run_all (m # ms) w =
     (case m w of (Inl e, w') \<Rightarrow> (Inl e, w') | (Inr u, w') \<Rightarrow> run_all ms w')"

definition record_event :: "event \<Rightarrow> world \<Rightarrow> world" where
  "record_event ev w = w\<lparr>trace := trace w @ [ev]\<rparr>"

definition console_log :: "string list \<Rightarrow> unit io" where
  "console_log args w = (Inr (), record_event (ConsoleLog args) w)"

definition console_error :: "string list \<Rightarrow> unit io" where
  "console_error args w = (Inr (), record_event (ConsoleError args) w)"

subsection \<open>The services, as the handlers call them\<close>

text \<open>
  \<^verbatim>\<open>bucket.file(filePath).download({destination})\<close>: a download that is
  rejected is taken to leave no file behind.
\<close>

definition download :: "services \<Rightarrow> string \<Rightarrow> string \<Rightarrow> unit io" where
  "download svc filePath destination w =
     (let w1 = record_event (Download filePath destination) w in
      case download_fault svc filePath of
        Some e \<Rightarrow> (Inl e, w1)
      | None \<Rightarrow>
          (case storage w1 filePath of
             None \<Rightarrow> (Inl NotFound, w1)
           | Some b \<Rightarrow> (Inr (), w1\<lparr>localfs := (localfs w1)(destination \<mapsto> b)\<rparr>)))"

text \<open>\<^verbatim>\<open>spawn('convert', [file, '-channel', 'RGBA', '-blur', '0x24', file])\<close>\<close>

definition spawn_convert :: "services \<Rightarrow> string \<Rightarrow> unit io" where
  "spawn_convert svc file w =
     (let w1 = record_event (SpawnConvert file) w in
      case localfs w1 file of
        None \<Rightarrow> (Inl ENOENT, w1)
      | Some b \<Rightarrow>
          (case convert svc b of
             Inl e \<Rightarrow> (Inl e, w1)
           | Inr b' \<Rightarrow> (Inr (), w1\<lparr>localfs := (localfs w1)(file \<mapsto> b')\<rparr>)))"

text \<open>\<^verbatim>\<open>bucket.upload(file, {destination})\<close>\<close>

definition upload :: "services \<Rightarrow> string \<Rightarrow> string \<Rightarrow> unit io" where
  "upload svc file destination w =
     (let w1 = record_event (Upload file destination) w in
      case upload_fault svc destination of
        Some e \<Rightarrow> (Inl e, w1)
      | None \<Rightarrow>
          (case localfs w1 file of
             None \<Rightarrow> (Inl ENOENT, w1)
           | Some b \<Rightarrow> (Inr (), w1\<lparr>storage := (storage w1)(destination \<mapsto> b)\<rparr>)))"

text \<open>\<^verbatim>\<open>fs.unlinkSync(file)\<close>\<close>

definition unlinkSync :: "string \<Rightarrow> unit io" where
  "unlinkSync file w =
     (let w1 = record_event (UnlinkSync file) w in
      case localfs w1 file of
        None \<Rightarrow> (Inl ENOENT, w1)
      | Some b \<Rightarrow> (Inr (), w1\<lparr>localfs := (localfs w1)(file := None)\<rparr>))"

text \<open>
  \<^verbatim>\<open>collection(c).doc(id)\<close>: the client library refuses an identifier that is not a
  non-empty string, before any request is made.
\<close>

definition doc :: "string option \<Rightarrow> exn + string" where
  "doc documentPath =
     (case documentPath of
        None \<Rightarrow> Inl InvalidArgument
      | Some p \<Rightarrow> if p = [] then Inl InvalidArgument else Inr p)"

text \<open>
  \<^verbatim>\<open>collection('messages').doc(id).update({moderated: true})\<close>: an update of a
  document that does not exist is rejected.
\<close>

definition update_moderated :: "services \<Rightarrow> string option \<Rightarrow> unit io" where
  "update_moderated svc messageId w =
     (case doc messageId of
        Inl e \<Rightarrow> (Inl e, w)
      | Inr mid \<Rightarrow>
          (let w1 = record_event (DocUpdateModerated ''messages'' mid) w in
           case update_fault svc mid of
             Some e \<Rightarrow> (Inl e, w1)
           | None \<Rightarrow>
               (case messages w1 mid of
                  None \<Rightarrow> (Inl NotFound, w1)
                | Some m \<Rightarrow>
                    (Inr (), w1\<lparr>messages := (messages w1)(mid \<mapsto> m\<lparr>moderated := True\<rparr>)\<rparr>))))"

text \<open>\<^verbatim>\<open>collection('messages').add(fields)\<close>\<close>

definition add_message :: "services \<Rightarrow> message \<Rightarrow> unit io" where
  "add_message svc m w =
     (let w1 = record_event (DocAdd ''messages'' m) w in
      case add_fault svc of
        Some e \<Rightarrow> (Inl e, w1)
      | None \<Rightarrow> (Inr (), w1\<lparr>messages := (messages w1)(autoId svc \<mapsto> m)\<rparr>))"

text \<open>
  \<^verbatim>\<open>collection(c).doc(id).delete()\<close>: the request is issued at once; the value is how
  the promise settles. Deleting a document that does not exist succeeds.
\<close>

definition delete_doc :: "services \<Rightarrow> string \<Rightarrow> string \<Rightarrow> world \<Rightarrow> exn option \<times> world" where
  "delete_doc svc collection docId w =
     (let w1 = record_event (DocDelete collection docId) w in
      case delete_fault svc docId of
        Some e \<Rightarrow> (Some e, w1)
      | None \<Rightarrow>
          (None,
           if collection = ''messages'' then w1\<lparr>messages := (messages w1)(docId := None)\<rparr>
           else if collection = ''fcmTokens'' then w1\<lparr>fcmTokens := removeAll docId (fcmTokens w1)\<rparr>
           else w1))"

text \<open>\<^verbatim>\<open>collection('fcmTokens').get()\<close> followed by the loop that collects the ids.\<close>

definition get_tokens :: "services \<Rightarrow> (string list) io" where
  "get_tokens svc w =
     (let w1 = record_event (CollectionGet ''fcmTokens'') w in
      case get_fault svc of
        Some e \<Rightarrow> (Inl e, w1)
      | None \<Rightarrow> (Inr (fcmTokens w1), w1))"

subsection \<open>addWelcomeMessages\<close>

definition welcome_message :: "services \<Rightarrow> user_record \<Rightarrow> message" where
  "welcome_message svc user =
     (let fullName = or_default (displayName user) ''Anonymous'' in
      \<lparr>name = Some ''Firebase Bot'',
       profilePicUrl = Some ''/images/firebase-logo.png'',
       text_field = Some (fullName @ '' signed in for the first time! Welcome!''),
       imageUrl = None,
       timestamp = Some (serverTimestamp svc),
       moderated = False\<rparr>)"

definition addWelcomeMessages :: "services \<Rightarrow> user_record \<Rightarrow> unit io" where
  "addWelcomeMessages svc user =
     run_all
       [console_log [''A new user signed in for the first time.''],
        add_message svc (welcome_message svc user),
        console_log [''Welcome message written to database.'']]"

subsection \<open>blurImage and blurOffensiveImages\<close>

definition tempLocalFile_of :: "services \<Rightarrow> string \<Rightarrow> string" where
  "tempLocalFile_of svc filePath = path_join (tmpdir svc) (basename filePath)"

definition messageId_of :: "string \<Rightarrow> string option" where
  "messageId_of filePath = nth_opt (js_split path_sep filePath) 1"

definition blurImage :: "services \<Rightarrow> string \<Rightarrow> unit io" where
  "blurImage svc filePath =
     (let tempLocalFile = tempLocalFile_of svc filePath;
          messageId = messageId_of filePath
      in run_all
           [download svc filePath tempLocalFile,
            console_log [''Image has been downloaded to'', tempLocalFile],
            spawn_convert svc tempLocalFile,
            console_log [''Image has been blurred''],
            upload svc tempLocalFile filePath,
            console_log [''Blurred image has been uploaded to'', filePath],
            unlinkSync tempLocalFile,
            console_log [''Deleted local file.''],
            update_moderated svc messageId,
            console_log [''Marked the image as moderated in the database.'']])"

definition imageUri_of :: "object_metadata \<Rightarrow> string" where
  "imageUri_of obj = ''gs://'' @ bucket obj @ ''/'' @ object_name obj"

definition inappropriate :: "safeSearchAnnotation \<Rightarrow> bool" where
  "inappropriate safeSearchResult =
     (js_ge (Likelihood (adult safeSearchResult)) (Likelihood (Some ''LIKELY'')) \<or>
      js_ge (Likelihood (violence safeSearchResult)) (Likelihood (Some ''LIKELY'')))"

definition blurOffensiveImages :: "services \<Rightarrow> object_metadata \<Rightarrow> unit io" where
  "blurOffensiveImages svc obj w =
     (let w1 = record_event (SafeSearchDetection (imageUri_of obj)) w in
      case safeSearchDetection svc (imageUri_of obj) of
        Inl e \<Rightarrow> (Inl e, w1)
      | Inr None \<Rightarrow> (Inl TypeError, w1)
      | Inr (Some safeSearchResult) \<Rightarrow>
          if inappropriate safeSearchResult
          then run_all
                 [console_log [''The image'', object_name obj,
                               ''has been detected as inappropriate.''],
                  blurImage svc (object_name obj)] w1
          else console_log [''The image'', object_name obj,
                            ''has been detected as OK.''] w1)"

subsection \<open>sendNotifications and cleanupTokens\<close>

definition notification_payload :: "services \<Rightarrow> message \<Rightarrow> notification" where
  "notification_payload svc data =
     (let text = text_field data in
      \<lparr>title = template_str (name data) @ '' posted '' @
                 (if truthy text then ''a message'' else ''an image''),
       body = (if truthy text
               then (case text of
                       None \<Rightarrow> []
                     | Some t \<Rightarrow> if length t \<le> 100 then t else take 97 t @ ''...'')
               else []),
       icon = or_default (profilePicUrl data) ''/images/profile_placeholder.png'',
       click_action = ''https://'' @ template_str (GCLOUD_PROJECT svc) @ ''.firebaseapp.com''\<rparr>)"

text \<open>
  The body of the \<^verbatim>\<open>forEach\<close> of \<^verbatim>\<open>cleanupTokens\<close>, over the results with their
  indices. \<open>tokensDelete\<close> holds how each delete issued so far settles.
\<close>

fun cleanup_each ::
  "services \<Rightarrow> string list \<Rightarrow> (nat \<times> sendResult) list \<Rightarrow> exn option list \<Rightarrow>
     (exn option list) io" where
  "cleanup_each svc tokens [] tokensDelete w = (Inr tokensDelete, w)"
| "cleanup_each svc tokens ((index, result) # rest) tokensDelete w =
     (case error result of
        None \<Rightarrow> cleanup_each svc tokens rest tokensDelete w
      | Some err \<Rightarrow>
          (let w1 = record_event
                      (ConsoleError [''Failure sending notification to'',
                                     template_str (nth_opt tokens index), code err]) w
           in if code err = ''messaging/invalid-registration-token'' \<or>
                 code err = ''messaging/registration-token-not-registered''
              then (case doc (nth_opt tokens index) of
                      Inl e \<Rightarrow> (Inl e, w1)
                    | Inr docId \<Rightarrow>
                        (case delete_doc svc ''messages'' docId w1 of
                           (deleteTask, w2) \<Rightarrow>
                             cleanup_each svc tokens rest (tokensDelete @ [deleteTask]) w2))
              else cleanup_each svc tokens rest tokensDelete w1))"

text \<open>\<^verbatim>\<open>Promise.all\<close>: rejected as soon as one of the promises is.\<close>

fun promise_all :: "exn option list \<Rightarrow> unit io" where
  "promise_all [] w = (Inr (), w)"
| "promise_all (None # ps) w = promise_all ps w"
| "promise_all (Some e # ps) w = (Inl e, w)"

definition cleanupTokens :: "services \<Rightarrow> sendResult list \<Rightarrow> string list \<Rightarrow> unit io" where
  "cleanupTokens svc results tokens w =
     (case cleanup_each svc tokens (zip [0..<length results] results) [] w of
        (Inl e, w1) \<Rightarrow> (Inl e, w1)
      | (Inr tokensDelete, w1) \<Rightarrow> promise_all tokensDelete w1)"

definition send_to_device :: "services \<Rightarrow> string list \<Rightarrow> notification \<Rightarrow> (sendResult list) io" where
  "send_to_device svc tokens payload w =
     (let w1 = record_event (SendToDevice tokens payload) w in
      case sendToDevice svc tokens payload of
        Inl e \<Rightarrow> (Inl e, w1)
      | Inr results \<Rightarrow> (Inr results, w1))"

definition sendNotifications :: "services \<Rightarrow> message \<Rightarrow> unit io" where
  "sendNotifications svc data w =
     (let payload = notification_payload svc data in
      case get_tokens svc w of
        (Inl e, w1) \<Rightarrow> (Inl e, w1)
      | (Inr tokens, w1) \<Rightarrow>
          if length tokens > 0
          then (case send_to_device svc tokens payload w1 of
                  (Inl e, w2) \<Rightarrow> (Inl e, w2)
                | (Inr results, w2) \<Rightarrow>
                    run_all
                      [cleanupTokens svc results tokens,
                       console_log [''Notifications have been sent and tokens cleaned up.'']]
                      w2)
          else (Inr (), w1))"

subsection \<open>Reading a trace\<close>

fun is_console :: "event \<Rightarrow> bool" where
  "is_console (ConsoleLog args) = True"
| "is_console (ConsoleError args) = True"
| "is_console ev = False"

text \<open>The calls to the services in a trace, without the log lines.\<close>

definition service_calls :: "world \<Rightarrow> event list" where
  "service_calls w = filter (\<lambda>ev. \<not> is_console ev) (trace w)"

fun is_download :: "event \<Rightarrow> bool" where
  "is_download (Download p d) = True"
| "is_download ev = False"

fun is_convert :: "event \<Rightarrow> bool" where
  "is_convert (SpawnConvert f) = True"
| "is_convert ev = False"

fun is_upload :: "event \<Rightarrow> bool" where
  "is_upload (Upload f d) = True"
| "is_upload ev = False"

fun is_update :: "event \<Rightarrow> bool" where
  "is_update (DocUpdateModerated c i) = True"
| "is_update ev = False"

fun is_delete :: "event \<Rightarrow> bool" where
  "is_delete (DocDelete c i) = True"
| "is_delete ev = False"

fun is_send :: "event \<Rightarrow> bool" where
  "is_send (SendToDevice ts p) = True"
| "is_send ev = False"

definition count_calls :: "(event \<Rightarrow> bool) \<Rightarrow> world \<Rightarrow> nat" where
  "count_calls P w = length (filter P (trace w))"

subsection \<open>Concrete inputs\<close>

text \<open>
  The scenario of the documentation: the object \<^verbatim>\<open>images/msg123/photo.png\<close> is
  finalized, the classifier answers adult = LIKELY and violence = UNLIKELY, every service
  answers, and three device tokens are registered.
\<close>

definition unsafe_annotation :: safeSearchAnnotation where
  "unsafe_annotation = \<lparr>adult = Some ''LIKELY'', violence = Some ''UNLIKELY''\<rparr>"

definition ok_services :: services where
  "ok_services =
     \<lparr>safeSearchDetection = (\<lambda>uri. Inr (Some unsafe_annotation)),
      download_fault = (\<lambda>p. None),
      convert = (\<lambda>b. Inr (''blurred '' @ b)),
      upload_fault = (\<lambda>p. None),
      add_fault = None,
      update_fault = (\<lambda>i. None),
      delete_fault = (\<lambda>i. None),
      get_fault = None,
      sendToDevice = (\<lambda>ts p. Inr (map (\<lambda>t. \<lparr>error = None\<rparr>) ts)),
      tmpdir = ''/tmp'',
      autoId = ''auto1'',
      serverTimestamp = 0,
      GCLOUD_PROJECT = Some ''friendlychat''\<rparr>"

definition posted_message :: message where
  "posted_message =
     \<lparr>name = Some ''Ada'', profilePicUrl = None, text_field = None,
      imageUrl = Some ''images/msg123/photo.png'', timestamp = Some 1, moderated = False\<rparr>"

definition demo_world :: world where
  "demo_world =
     \<lparr>storage = [''images/msg123/photo.png'' \<mapsto> ''pixels'', ''photo.png'' \<mapsto> ''pixels''],
      localfs = Map.empty,
      messages = [''msg123'' \<mapsto> posted_message],
      fcmTokens = [''A'', ''B'', ''C''],
      trace = []\<rparr>"

definition photo_object :: object_metadata where
  "photo_object = \<lparr>bucket = ''friendlychat'', object_name = ''images/msg123/photo.png''\<rparr>"

definition flat_object :: object_metadata where
  "flat_object = \<lparr>bucket = ''friendlychat'', object_name = ''photo.png''\<rparr>"

text \<open>Services in which one step of the blur path fails.\<close>

definition download_down_services :: services where
  "download_down_services =
     ok_services\<lparr>download_fault := (\<lambda>p. Some (ServiceError ''storage unavailable''))\<rparr>"

definition convert_failing_services :: services where
  "convert_failing_services =
     ok_services\<lparr>convert := (\<lambda>b. Inl (ServiceError ''convert exited with code 1''))\<rparr>"

definition upload_failing_services :: services where
  "upload_failing_services =
     ok_services\<lparr>upload_fault := (\<lambda>p. Some (ServiceError ''storage unavailable''))\<rparr>"

text \<open>
  Dispatch results for the three registered tokens: the first is reported as not
  registered, the second as invalid, the third is delivered.
\<close>

definition stale_results :: "sendResult list" where
  "stale_results =
     [\<lparr>error = Some \<lparr>code = ''messaging/registration-token-not-registered''\<rparr>\<rparr>,
      \<lparr>error = Some \<lparr>code = ''messaging/invalid-registration-token''\<rparr>\<rparr>,
      \<lparr>error = None\<rparr>]"

definition stale_services :: services where
  "stale_services = ok_services\<lparr>sendToDevice := (\<lambda>ts p. Inr stale_results)\<rparr>"

text \<open>Classifier answers below the threshold, and outside the scale.\<close>

definition safe_annotation :: safeSearchAnnotation where
  "safe_annotation = \<lparr>adult = Some ''POSSIBLE'', violence = Some ''VERY_UNLIKELY''\<rparr>"

definition safe_services :: services where
  "safe_services = ok_services\<lparr>safeSearchDetection := (\<lambda>uri. Inr (Some safe_annotation))\<rparr>"

definition odd_annotation :: safeSearchAnnotation where
  "odd_annotation = \<lparr>adult = Some ''PROBABLY'', violence = None\<rparr>"

definition odd_services :: services where
  "odd_services = ok_services\<lparr>safeSearchDetection := (\<lambda>uri. Inr (Some odd_annotation))\<rparr>"

section \<open>Auxiliary facts\<close>

lemmas io_defs = console_log_def console_error_def download_def spawn_convert_def upload_def
  unlinkSync_def update_moderated_def doc_def record_event_def

lemmas model_defs = blurOffensiveImages_def blurImage_def imageUri_of_def inappropriate_def
  tempLocalFile_of_def messageId_of_def basename_def path_join_def path_sep_def nth_opt_def
  js_ge_def Likelihood_def Likelihood_table_def service_calls_def count_calls_def io_defs
  Let_def

subsection \<open>The threshold\<close>

text \<open>On the six levels, the comparison holds for LIKELY and VERY_LIKELY only.\<close>

lemma reaches_LIKELY_iff:
  "js_ge (Likelihood v) (Likelihood (Some ''LIKELY'')) \<longleftrightarrow>
     v = Some ''LIKELY'' \<or> v = Some ''VERY_LIKELY''"
  by (cases v) (auto simp: js_ge_def Likelihood_def Likelihood_table_def split: if_splits)

lemma Likelihood_unrecognised:
  "v \<notin> Some ` set (map fst Likelihood_table) \<Longrightarrow> Likelihood v = None"
  by (cases v) (auto simp: Likelihood_def Likelihood_table_def)

subsection \<open>The two branches of blurOffensiveImages\<close>

lemma safe_branch:
  assumes "safeSearchDetection svc (imageUri_of obj) = Inr (Some r)" and "\<not> inappropriate r"
  shows "blurOffensiveImages svc obj w =
           (Inr (), w\<lparr>trace := trace w @
              [SafeSearchDetection (imageUri_of obj),
               ConsoleLog [''The image'', object_name obj, ''has been detected as OK.'']]\<rparr>)"
  using assms by (simp add: blurOffensiveImages_def console_log_def record_event_def)

lemma unsafe_branch:
  assumes "safeSearchDetection svc (imageUri_of obj) = Inr (Some r)" and "inappropriate r"
  shows "blurOffensiveImages svc obj w =
           blurImage svc (object_name obj)
             (w\<lparr>trace := trace w @
                [SafeSearchDetection (imageUri_of obj),
                 ConsoleLog [''The image'', object_name obj,
                             ''has been detected as inappropriate.'']]\<rparr>)"
  using assms
  by (cases "blurImage svc (object_name obj)
             (w\<lparr>trace := trace w @
                [SafeSearchDetection (imageUri_of obj),
                 ConsoleLog [''The image'', object_name obj,
                             ''has been detected as inappropriate.'']]\<rparr>)")
     (auto simp: blurOffensiveImages_def console_log_def record_event_def split: sum.splits)

subsection \<open>blurImage, step by step\<close>

text \<open>
  When the download, the transform and the upload succeed, the first eight statements of
  \<open>blurImage\<close> leave the blurred content at the object path and no scratch file; what
  remains is the update of the message.
\<close>

lemma blurImage_success_prefix:
  assumes "download_fault svc filePath = None"
      and "storage w filePath = Some b"
      and "convert svc b = Inr b'"
      and "upload_fault svc filePath = None"
  shows "blurImage svc filePath w =
           run_all [update_moderated svc (messageId_of filePath),
                    console_log [''Marked the image as moderated in the database.'']]
             (w\<lparr>storage := (storage w)(filePath \<mapsto> b'),
                localfs := (localfs w)(tempLocalFile_of svc filePath := None),
                trace := trace w @
                  [Download filePath (tempLocalFile_of svc filePath),
                   ConsoleLog [''Image has been downloaded to'', tempLocalFile_of svc filePath],
                   SpawnConvert (tempLocalFile_of svc filePath),
                   ConsoleLog [''Image has been blurred''],
                   Upload (tempLocalFile_of svc filePath) filePath,
                   ConsoleLog [''Blurred image has been uploaded to'', filePath],
                   UnlinkSync (tempLocalFile_of svc filePath),
                   ConsoleLog [''Deleted local file.'']]\<rparr>)"
  using assms
  by (simp add: blurImage_def Let_def console_log_def download_def spawn_convert_def
        upload_def unlinkSync_def record_event_def)

lemma update_moderated_frame:
  "localfs (snd (update_moderated svc i w)) = localfs w \<and>
   storage (snd (update_moderated svc i w)) = storage w \<and>
   fcmTokens (snd (update_moderated svc i w)) = fcmTokens w"
  by (simp add: update_moderated_def doc_def record_event_def Let_def
        split: option.splits sum.splits)

lemma update_moderated_trace:
  "doc i = Inr mid \<Longrightarrow>
   trace (snd (update_moderated svc i w)) = trace w @ [DocUpdateModerated ''messages'' mid]"
  by (simp add: update_moderated_def record_event_def Let_def split: option.splits)

lemma run_update_log_localfs:
  "localfs (snd (run_all [update_moderated svc i, console_log args] w)) = localfs w"
  using update_moderated_frame [of svc i w]
  by (cases "update_moderated svc i w")
     (auto simp: console_log_def record_event_def split: sum.splits)

lemma run_update_log_calls:
  "doc i = Inr mid \<Longrightarrow>
   service_calls (snd (run_all [update_moderated svc i, console_log args] w))
     = service_calls w @ [DocUpdateModerated ''messages'' mid]"
  using update_moderated_trace [of i mid svc w]
  by (cases "update_moderated svc i w")
     (auto simp: console_log_def record_event_def service_calls_def split: sum.splits)

lemma blurImage_success_calls:
  assumes "download_fault svc filePath = None"
      and "storage w filePath = Some b"
      and "convert svc b = Inr b'"
      and "upload_fault svc filePath = None"
      and "doc (messageId_of filePath) = Inr mid"
  shows "service_calls (snd (blurImage svc filePath w)) =
           service_calls w @
             [Download filePath (tempLocalFile_of svc filePath),
              SpawnConvert (tempLocalFile_of svc filePath),
              Upload (tempLocalFile_of svc filePath) filePath,
              UnlinkSync (tempLocalFile_of svc filePath),
              DocUpdateModerated ''messages'' mid]"
  by (simp add: blurImage_success_prefix [OF assms(1-4)] run_update_log_calls [OF assms(5)]
        del: run_all.simps)
     (simp add: service_calls_def)

lemma run_update_log_storage:
  "storage (snd (run_all [update_moderated svc i, console_log args] w)) = storage w"
  using update_moderated_frame [of svc i w]
  by (cases "update_moderated svc i w")
     (auto simp: console_log_def record_event_def split: sum.splits)

lemma run_update_log_messages:
  "doc i = Inr mid \<Longrightarrow> update_fault svc mid = None \<Longrightarrow> messages w mid = Some m \<Longrightarrow>
   messages (snd (run_all [update_moderated svc i, console_log args] w)) mid
     = Some (m\<lparr>moderated := True\<rparr>)"
  by (simp add: update_moderated_def console_log_def record_event_def)

lemma blurImage_success_storage:
  assumes "download_fault svc filePath = None"
      and "storage w filePath = Some b"
      and "convert svc b = Inr b'"
      and "upload_fault svc filePath = None"
  shows "storage (snd (blurImage svc filePath w)) filePath = Some b'"
  by (simp add: blurImage_success_prefix [OF assms] run_update_log_storage del: run_all.simps)

lemma blurImage_success_messages:
  assumes "download_fault svc filePath = None"
      and "storage w filePath = Some b"
      and "convert svc b = Inr b'"
      and "upload_fault svc filePath = None"
      and "doc (messageId_of filePath) = Inr mid"
      and "update_fault svc mid = None"
      and "messages w mid = Some m"
  shows "messages (snd (blurImage svc filePath w)) mid = Some (m\<lparr>moderated := True\<rparr>)"
  using assms(7)
  by (simp add: blurImage_success_prefix [OF assms(1-4)]
        run_update_log_messages [OF assms(5,6)] del: run_all.simps)

text \<open>
  A failing transform or upload ends the run with the scratch file in place.
\<close>

lemma blurImage_convert_fails:
  assumes "download_fault svc filePath = None"
      and "storage w filePath = Some b"
      and "convert svc b = Inl e"
  shows "fst (blurImage svc filePath w) = Inl e \<and>
         localfs (snd (blurImage svc filePath w)) (tempLocalFile_of svc filePath) = Some b"
  using assms
  by (simp add: blurImage_def Let_def console_log_def download_def spawn_convert_def
        record_event_def)

lemma blurImage_upload_fails:
  assumes "download_fault svc filePath = None"
      and "storage w filePath = Some b"
      and "convert svc b = Inr b'"
      and "upload_fault svc filePath = Some e"
  shows "fst (blurImage svc filePath w) = Inl e \<and>
         localfs (snd (blurImage svc filePath w)) (tempLocalFile_of svc filePath) = Some b'"
  using assms
  by (simp add: blurImage_def Let_def console_log_def download_def spawn_convert_def
        upload_def record_event_def)

text \<open>
  Without a usable message identifier \<open>blurImage\<close> always ends in a failure, and
  whatever step it fails at, no message is touched.
\<close>

lemma blurImage_without_id:
  assumes "doc (messageId_of filePath) = Inl e"
  shows "isl (fst (blurImage svc filePath w)) \<and>
         messages (snd (blurImage svc filePath w)) = messages w \<and>
         filter is_update (trace (snd (blurImage svc filePath w))) = filter is_update (trace w)"
  using assms
  by (auto simp: blurImage_def Let_def console_log_def download_def spawn_convert_def
        upload_def unlinkSync_def update_moderated_def record_event_def
        split: option.splits sum.splits)

subsection \<open>Counting calls\<close>

lemma count_calls_service:
  "(\<And>ev. P ev \<Longrightarrow> \<not> is_console ev) \<Longrightarrow>
   count_calls P w = length (filter P (service_calls w))"
  by (simp add: count_calls_def service_calls_def) (metis (mono_tags, lifting) filter_cong)

lemma count_calls_append:
  "service_calls w' = service_calls w @ evs \<Longrightarrow> (\<And>ev. P ev \<Longrightarrow> \<not> is_console ev) \<Longrightarrow>
   count_calls P w' = count_calls P w + length (filter P evs)"
  by (simp add: count_calls_service)

lemma not_console:
  "is_download ev \<Longrightarrow> \<not> is_console ev" "is_convert ev \<Longrightarrow> \<not> is_console ev"
  "is_upload ev \<Longrightarrow> \<not> is_console ev" "is_update ev \<Longrightarrow> \<not> is_console ev"
  by (cases ev; simp)+

subsection \<open>cleanupTokens and the token collection\<close>

text \<open>No run of \<open>cleanupTokens\<close> changes the collection the tokens were read from.\<close>

lemma cleanup_each_fcmTokens:
  "fcmTokens (snd (cleanup_each svc tokens irs acc w)) = fcmTokens w"
  by (induction svc tokens irs acc w rule: cleanup_each.induct)
     (auto simp: delete_doc_def record_event_def Let_def
        split: option.splits sum.splits prod.splits)

lemma promise_all_world: "snd (promise_all ps w) = w"
  by (induction ps w rule: promise_all.induct) auto

lemma cleanupTokens_fcmTokens:
  "fcmTokens (snd (cleanupTokens svc results tokens w)) = fcmTokens w"
  using cleanup_each_fcmTokens [of svc tokens "zip [0..<length results] results" "[]" w]
  by (auto simp: cleanupTokens_def promise_all_world split: prod.splits sum.splits)

section \<open>Moderation pipeline\<close>

text \<open>
  C1 (as amended). For every classifier result in which the adult or the violence
  likelihood is LIKELY or above, and provided that the download, the blur transform and
  the re-upload succeed and that the object path has a non-empty second segment,
  \<open>blurOffensiveImages\<close> runs the blur path exactly once: after the classification its
  calls are one download, one blur of the scratch file, one upload of the scratch file to
  the same object path, the removal of the scratch file, and then one update of the
  message named by the second segment of the path, setting \<open>moderated\<close>. The
  blurred content is then at the object path, and the message, if the update is not
  rejected, has \<open>moderated\<close> set.
\<close>

theorem blur_path_runs_once:
  assumes "safeSearchDetection svc (imageUri_of obj) = Inr (Some r)"
      and "js_ge (Likelihood (adult r)) (Likelihood (Some ''LIKELY'')) \<or>
           js_ge (Likelihood (violence r)) (Likelihood (Some ''LIKELY''))"
      and "download_fault svc (object_name obj) = None"
      and "storage w (object_name obj) = Some b"
      and "convert svc b = Inr b'"
      and "upload_fault svc (object_name obj) = None"
      and "messageId_of (object_name obj) = Some mid"
      and "mid \<noteq> []"
  shows "service_calls (snd (blurOffensiveImages svc obj w)) =
           service_calls w @
             [SafeSearchDetection (imageUri_of obj),
              Download (object_name obj) (tempLocalFile_of svc (object_name obj)),
              SpawnConvert (tempLocalFile_of svc (object_name obj)),
              Upload (tempLocalFile_of svc (object_name obj)) (object_name obj),
              UnlinkSync (tempLocalFile_of svc (object_name obj)),
              DocUpdateModerated ''messages'' mid] \<and>
         count_calls is_download (snd (blurOffensiveImages svc obj w))
           = count_calls is_download w + 1 \<and>
         count_calls is_convert (snd (blurOffensiveImages svc obj w))
           = count_calls is_convert w + 1 \<and>
         count_calls is_upload (snd (blurOffensiveImages svc obj w))
           = count_calls is_upload w + 1 \<and>
         count_calls is_update (snd (blurOffensiveImages svc obj w))
           = count_calls is_update w + 1 \<and>
         storage (snd (blurOffensiveImages svc obj w)) (object_name obj) = Some b' \<and>
         (\<forall>m. update_fault svc mid = None \<and> messages w mid = Some m \<longrightarrow>
            messages (snd (blurOffensiveImages svc obj w)) mid = Some (m\<lparr>moderated := True\<rparr>))"
proof -
  let ?w1 = "w\<lparr>trace := trace w @
                [SafeSearchDetection (imageUri_of obj),
                 ConsoleLog [''The image'', object_name obj,
                             ''has been detected as inappropriate.'']]\<rparr>"
  have u: "inappropriate r"
    using assms(2) by (simp add: inappropriate_def)
  have run: "blurOffensiveImages svc obj w = blurImage svc (object_name obj) ?w1"
    by (rule unsafe_branch [OF assms(1) u])
  have d: "doc (messageId_of (object_name obj)) = Inr mid"
    using assms(7,8) by (simp add: doc_def)
  have s: "storage ?w1 (object_name obj) = Some b"
    using assms(4) by simp
  have calls: "service_calls (snd (blurOffensiveImages svc obj w)) =
           service_calls w @
             [SafeSearchDetection (imageUri_of obj),
              Download (object_name obj) (tempLocalFile_of svc (object_name obj)),
              SpawnConvert (tempLocalFile_of svc (object_name obj)),
              Upload (tempLocalFile_of svc (object_name obj)) (object_name obj),
              UnlinkSync (tempLocalFile_of svc (object_name obj)),
              DocUpdateModerated ''messages'' mid]"
    by (simp add: run blurImage_success_calls [OF assms(3) s assms(5,6) d])
       (simp add: service_calls_def)
  have counts:
    "count_calls is_download (snd (blurOffensiveImages svc obj w)) = count_calls is_download w + 1"
    "count_calls is_convert (snd (blurOffensiveImages svc obj w)) = count_calls is_convert w + 1"
    "count_calls is_upload (snd (blurOffensiveImages svc obj w)) = count_calls is_upload w + 1"
    "count_calls is_update (snd (blurOffensiveImages svc obj w)) = count_calls is_update w + 1"
    by (simp_all add: count_calls_append [OF calls] not_console)
  have blob: "storage (snd (blurOffensiveImages svc obj w)) (object_name obj) = Some b'"
    by (simp add: run blurImage_success_storage [OF assms(3) s assms(5,6)])
  have flag: "messages (snd (blurOffensiveImages svc obj w)) mid = Some (m\<lparr>moderated := True\<rparr>)"
    if "update_fault svc mid = None \<and> messages w mid = Some m" for m
  proof -
    from that have "update_fault svc mid = None" and "messages ?w1 mid = Some m"
      by simp_all
    from blurImage_success_messages [OF assms(3) s assms(5,6) d this]
    show ?thesis by (simp add: run)
  qed
  from calls counts blob flag show ?thesis
    by blast
qed

text \<open>
  The scenario of the documentation: \<^verbatim>\<open>images/msg123/photo.png\<close> with adult = LIKELY
  and violence = UNLIKELY; the message \<^verbatim>\<open>msg123\<close> is the one updated.
\<close>

theorem blur_path_runs_once_witness:
  "js_ge (Likelihood (adult unsafe_annotation)) (Likelihood (Some ''LIKELY'')) \<and>
   messageId_of (object_name photo_object) = Some ''msg123'' \<and>
   service_calls (snd (blurOffensiveImages ok_services photo_object demo_world)) =
     [SafeSearchDetection ''gs://friendlychat/images/msg123/photo.png'',
      Download ''images/msg123/photo.png'' ''/tmp/photo.png'',
      SpawnConvert ''/tmp/photo.png'',
      Upload ''/tmp/photo.png'' ''images/msg123/photo.png'',
      UnlinkSync ''/tmp/photo.png'',
      DocUpdateModerated ''messages'' ''msg123''] \<and>
   count_calls is_update (snd (blurOffensiveImages ok_services photo_object demo_world)) = 1 \<and>
   storage (snd (blurOffensiveImages ok_services photo_object demo_world))
     ''images/msg123/photo.png'' = Some ''blurred pixels'' \<and>
   messages (snd (blurOffensiveImages ok_services photo_object demo_world)) ''msg123''
     = Some (posted_message\<lparr>moderated := True\<rparr>)"
proof -
  have h1: "safeSearchDetection ok_services (imageUri_of photo_object)
              = Inr (Some unsafe_annotation)"
    by (simp add: ok_services_def)
  have h2: "js_ge (Likelihood (adult unsafe_annotation)) (Likelihood (Some ''LIKELY''))"
    by (simp add: unsafe_annotation_def js_ge_def Likelihood_def Likelihood_table_def)
  have h3: "download_fault ok_services (object_name photo_object) = None"
    by (simp add: ok_services_def)
  have h4: "storage demo_world (object_name photo_object) = Some ''pixels''"
    by (simp add: demo_world_def photo_object_def)
  have h5: "convert ok_services ''pixels'' = Inr ''blurred pixels''"
    by (simp add: ok_services_def)
  have h6: "upload_fault ok_services (object_name photo_object) = None"
    by (simp add: ok_services_def)
  have h7: "messageId_of (object_name photo_object) = Some ''msg123''"
    by (simp add: photo_object_def model_defs)
  have h8: "''msg123'' \<noteq> []"
    by simp
  have h9: "update_fault ok_services ''msg123'' = None"
    by (simp add: ok_services_def)
  have h10: "messages demo_world ''msg123'' = Some posted_message"
    by (simp add: demo_world_def)
  from blur_path_runs_once [OF h1 disjI1 [OF h2] h3 h4 h5 h6 h7 h8] h2 h7 h9 h10
  show ?thesis
    by (simp add: service_calls_def count_calls_def demo_world_def photo_object_def
          imageUri_of_def tempLocalFile_of_def basename_def path_join_def path_sep_def
          ok_services_def)
qed

text \<open>
  C1 as stated fails. With adult = LIKELY and a download that is rejected, the download
  is called once and neither the transform, nor the upload, nor the update follows; and
  for the object path \<^verbatim>\<open>photo.png\<close>, which has no second segment, the blob is
  uploaded and no update of a message is attempted.
\<close>

theorem blur_path_stops_at_failed_step:
  "inappropriate unsafe_annotation \<and>
   count_calls is_download
     (snd (blurOffensiveImages download_down_services photo_object demo_world)) = 1 \<and>
   count_calls is_convert
     (snd (blurOffensiveImages download_down_services photo_object demo_world)) = 0 \<and>
   count_calls is_upload
     (snd (blurOffensiveImages download_down_services photo_object demo_world)) = 0 \<and>
   count_calls is_update
     (snd (blurOffensiveImages download_down_services photo_object demo_world)) = 0 \<and>
   count_calls is_upload (snd (blurOffensiveImages ok_services flat_object demo_world)) = 1 \<and>
   count_calls is_update (snd (blurOffensiveImages ok_services flat_object demo_world)) = 0"
  by (simp add: download_down_services_def ok_services_def unsafe_annotation_def
        photo_object_def flat_object_def demo_world_def model_defs)

text \<open>
  C2. For every classifier result in which neither the adult nor the violence likelihood
  reaches LIKELY, \<open>blurOffensiveImages\<close> returns normally having only called the
  classifier and written one log line: no download, no upload, no update, and the bucket
  and the messages are as before.
\<close>

theorem safe_image_untouched:
  assumes "safeSearchDetection svc (imageUri_of obj) = Inr (Some r)"
      and "\<not> js_ge (Likelihood (adult r)) (Likelihood (Some ''LIKELY''))"
      and "\<not> js_ge (Likelihood (violence r)) (Likelihood (Some ''LIKELY''))"
  shows "blurOffensiveImages svc obj w =
           (Inr (), w\<lparr>trace := trace w @
              [SafeSearchDetection (imageUri_of obj),
               ConsoleLog [''The image'', object_name obj, ''has been detected as OK.'']]\<rparr>) \<and>
         storage (snd (blurOffensiveImages svc obj w)) = storage w \<and>
         messages (snd (blurOffensiveImages svc obj w)) = messages w \<and>
         count_calls is_download (snd (blurOffensiveImages svc obj w))
           = count_calls is_download w \<and>
         count_calls is_upload (snd (blurOffensiveImages svc obj w))
           = count_calls is_upload w \<and>
         count_calls is_update (snd (blurOffensiveImages svc obj w))
           = count_calls is_update w"
proof -
  have "\<not> inappropriate r"
    using assms(2,3) by (simp add: inappropriate_def)
  from safe_branch [OF assms(1) this, of w] show ?thesis
    by (simp add: count_calls_def)
qed

theorem safe_image_untouched_witness:
  "\<not> js_ge (Likelihood (adult safe_annotation)) (Likelihood (Some ''LIKELY'')) \<and>
   \<not> js_ge (Likelihood (violence safe_annotation)) (Likelihood (Some ''LIKELY'')) \<and>
   blurOffensiveImages safe_services photo_object demo_world =
     (Inr (), demo_world\<lparr>trace :=
        [SafeSearchDetection ''gs://friendlychat/images/msg123/photo.png'',
         ConsoleLog [''The image'', ''images/msg123/photo.png'',
                     ''has been detected as OK.'']]\<rparr>)"
proof -
  have h1: "safeSearchDetection safe_services (imageUri_of photo_object)
              = Inr (Some safe_annotation)"
    by (simp add: safe_services_def)
  have h2: "\<not> js_ge (Likelihood (adult safe_annotation)) (Likelihood (Some ''LIKELY''))"
    by (simp add: safe_annotation_def js_ge_def Likelihood_def Likelihood_table_def)
  have h3: "\<not> js_ge (Likelihood (violence safe_annotation)) (Likelihood (Some ''LIKELY''))"
    by (simp add: safe_annotation_def js_ge_def Likelihood_def Likelihood_table_def)
  from safe_image_untouched [OF h1 h2 h3, of demo_world] h2 h3 show ?thesis
    by (simp add: demo_world_def photo_object_def imageUri_of_def)
qed

text \<open>
  C4 (as amended). After any run of \<open>blurImage\<close> in which the download, the blur
  transform and the re-upload succeed, the scratch file no longer exists when the
  function returns, whether the update of the message that follows succeeds or fails.
  When the blur transform or the re-upload fails, the run ends in that failure before
  the deletion, and the scratch file is left in place.
\<close>

theorem scratch_file_after_blurImage:
  assumes "download_fault svc filePath = None"
      and "storage w filePath = Some b"
  shows "(\<forall>b'. convert svc b = Inr b' \<and> upload_fault svc filePath = None \<longrightarrow>
            localfs (snd (blurImage svc filePath w)) (tempLocalFile_of svc filePath) = None) \<and>
         (\<forall>e. convert svc b = Inl e \<longrightarrow>
            fst (blurImage svc filePath w) = Inl e \<and>
            localfs (snd (blurImage svc filePath w)) (tempLocalFile_of svc filePath) = Some b) \<and>
         (\<forall>b' e. convert svc b = Inr b' \<and> upload_fault svc filePath = Some e \<longrightarrow>
            fst (blurImage svc filePath w) = Inl e \<and>
            localfs (snd (blurImage svc filePath w)) (tempLocalFile_of svc filePath) = Some b')"
proof (intro conjI allI impI)
  fix b' assume "convert svc b = Inr b' \<and> upload_fault svc filePath = None"
  then show "localfs (snd (blurImage svc filePath w)) (tempLocalFile_of svc filePath) = None"
    using assms
    by (simp add: blurImage_success_prefix run_update_log_localfs del: run_all.simps)
next
  fix e assume c: "convert svc b = Inl e"
  from blurImage_convert_fails [OF assms c]
  show "fst (blurImage svc filePath w) = Inl e"
    and "localfs (snd (blurImage svc filePath w)) (tempLocalFile_of svc filePath) = Some b"
    by simp_all
next
  fix b' e assume c: "convert svc b = Inr b' \<and> upload_fault svc filePath = Some e"
  from blurImage_upload_fails [OF assms, of b' e] c
  show "fst (blurImage svc filePath w) = Inl e"
    and "localfs (snd (blurImage svc filePath w)) (tempLocalFile_of svc filePath) = Some b'"
    by simp_all
qed

theorem scratch_file_after_blurImage_witness:
  "storage demo_world ''images/msg123/photo.png'' = Some ''pixels'' \<and>
   convert ok_services ''pixels'' = Inr ''blurred pixels'' \<and>
   localfs (snd (blurImage ok_services ''images/msg123/photo.png'' demo_world))
     ''/tmp/photo.png'' = None \<and>
   localfs (snd (blurImage
                   (ok_services\<lparr>update_fault :=
                      (\<lambda>i. Some (ServiceError ''firestore unavailable''))\<rparr>)
                   ''images/msg123/photo.png'' demo_world))
     ''/tmp/photo.png'' = None \<and>
   convert convert_failing_services ''pixels'' = Inl (ServiceError ''convert exited with code 1'') \<and>
   localfs (snd (blurImage convert_failing_services ''images/msg123/photo.png'' demo_world))
     ''/tmp/photo.png'' = Some ''pixels'' \<and>
   upload_fault upload_failing_services ''images/msg123/photo.png''
     = Some (ServiceError ''storage unavailable'') \<and>
   localfs (snd (blurImage upload_failing_services ''images/msg123/photo.png'' demo_world))
     ''/tmp/photo.png'' = Some ''blurred pixels''"
proof -
  let ?down = "ok_services\<lparr>update_fault :=
                 (\<lambda>i. Some (ServiceError ''firestore unavailable''))\<rparr>"
  have h1: "download_fault ok_services ''images/msg123/photo.png'' = None"
    and h1': "download_fault ?down ''images/msg123/photo.png'' = None"
    and h1c: "download_fault convert_failing_services ''images/msg123/photo.png'' = None"
    and h1u: "download_fault upload_failing_services ''images/msg123/photo.png'' = None"
    by (simp_all add: ok_services_def convert_failing_services_def upload_failing_services_def)
  have h2: "storage demo_world ''images/msg123/photo.png'' = Some ''pixels''"
    by (simp add: demo_world_def)
  have h3: "convert ok_services ''pixels'' = Inr ''blurred pixels''"
    by (simp add: ok_services_def)
  from scratch_file_after_blurImage [OF h1 h2] scratch_file_after_blurImage [OF h1' h2]
       scratch_file_after_blurImage [OF h1c h2] scratch_file_after_blurImage [OF h1u h2] h2 h3
  show ?thesis
    by (simp add: tempLocalFile_of_def basename_def path_join_def path_sep_def
          ok_services_def convert_failing_services_def upload_failing_services_def)
qed

text \<open>
  C4 as stated fails. The scratch file does not exist before the run; when the blur
  transform fails the run ends in that failure and the downloaded file is still there,
  and when the re-upload fails the blurred file is still there.
\<close>

theorem scratch_file_left_after_failure:
  "localfs demo_world ''/tmp/photo.png'' = None \<and>
   tempLocalFile_of convert_failing_services ''images/msg123/photo.png'' = ''/tmp/photo.png'' \<and>
   fst (blurImage convert_failing_services ''images/msg123/photo.png'' demo_world)
     = Inl (ServiceError ''convert exited with code 1'') \<and>
   localfs (snd (blurImage convert_failing_services ''images/msg123/photo.png'' demo_world))
     ''/tmp/photo.png'' = Some ''pixels'' \<and>
   fst (blurImage upload_failing_services ''images/msg123/photo.png'' demo_world)
     = Inl (ServiceError ''storage unavailable'') \<and>
   localfs (snd (blurImage upload_failing_services ''images/msg123/photo.png'' demo_world))
     ''/tmp/photo.png'' = Some ''blurred pixels''"
  by (simp add: convert_failing_services_def upload_failing_services_def ok_services_def
        demo_world_def model_defs)

text \<open>
  C5 (as amended). For every object path with no second segment,
  \<open>blurOffensiveImages\<close> on an image classified as inappropriate ends in a failure,
  attempts no update and modifies no message; where the download, the blur transform and
  the re-upload succeed, the blob has been replaced by its blurred version before that
  failure.
\<close>

theorem no_message_id_no_message_update:
  assumes "safeSearchDetection svc (imageUri_of obj) = Inr (Some r)"
      and "js_ge (Likelihood (adult r)) (Likelihood (Some ''LIKELY'')) \<or>
           js_ge (Likelihood (violence r)) (Likelihood (Some ''LIKELY''))"
      and "messageId_of (object_name obj) = None"
  shows "isl (fst (blurOffensiveImages svc obj w)) \<and>
         messages (snd (blurOffensiveImages svc obj w)) = messages w \<and>
         count_calls is_update (snd (blurOffensiveImages svc obj w)) = count_calls is_update w \<and>
         (\<forall>b b'. download_fault svc (object_name obj) = None \<and>
                  storage w (object_name obj) = Some b \<and> convert svc b = Inr b' \<and>
                  upload_fault svc (object_name obj) = None \<longrightarrow>
            storage (snd (blurOffensiveImages svc obj w)) (object_name obj) = Some b')"
proof -
  let ?w1 = "w\<lparr>trace := trace w @
                [SafeSearchDetection (imageUri_of obj),
                 ConsoleLog [''The image'', object_name obj,
                             ''has been detected as inappropriate.'']]\<rparr>"
  have u: "inappropriate r"
    using assms(2) by (simp add: inappropriate_def)
  have run: "blurOffensiveImages svc obj w = blurImage svc (object_name obj) ?w1"
    by (rule unsafe_branch [OF assms(1) u])
  have d: "doc (messageId_of (object_name obj)) = Inl InvalidArgument"
    using assms(3) by (simp add: doc_def)
  have blob: "storage (snd (blurOffensiveImages svc obj w)) (object_name obj) = Some b'"
    if "download_fault svc (object_name obj) = None \<and>
        storage w (object_name obj) = Some b \<and> convert svc b = Inr b' \<and>
        upload_fault svc (object_name obj) = None" for b b'
  proof -
    from that have s: "storage ?w1 (object_name obj) = Some b" by simp
    from that blurImage_success_storage [OF _ s, of svc b'] show ?thesis
      by (simp add: run)
  qed
  have fail: "isl (fst (blurOffensiveImages svc obj w))"
    and msgs: "messages (snd (blurOffensiveImages svc obj w)) = messages w"
    and upd: "count_calls is_update (snd (blurOffensiveImages svc obj w))
                = count_calls is_update w"
    using blurImage_without_id [OF d, of svc ?w1] by (simp_all add: run count_calls_def)
  from fail msgs upd blob show ?thesis
    by blast
qed

theorem no_message_id_no_message_update_witness:
  "js_ge (Likelihood (adult unsafe_annotation)) (Likelihood (Some ''LIKELY'')) \<and>
   messageId_of (object_name flat_object) = None \<and>
   isl (fst (blurOffensiveImages ok_services flat_object demo_world)) \<and>
   messages (snd (blurOffensiveImages ok_services flat_object demo_world)) ''msg123''
     = Some posted_message \<and>
   storage (snd (blurOffensiveImages ok_services flat_object demo_world)) ''photo.png''
     = Some ''blurred pixels''"
proof -
  have h1: "safeSearchDetection ok_services (imageUri_of flat_object)
              = Inr (Some unsafe_annotation)"
    by (simp add: ok_services_def)
  have h2: "js_ge (Likelihood (adult unsafe_annotation)) (Likelihood (Some ''LIKELY''))"
    by (simp add: unsafe_annotation_def js_ge_def Likelihood_def Likelihood_table_def)
  have h3: "messageId_of (object_name flat_object) = None"
    by (simp add: flat_object_def model_defs)
  from no_message_id_no_message_update [OF h1 disjI1 [OF h2] h3, of demo_world] h2 h3 show ?thesis
    by (simp add: demo_world_def flat_object_def ok_services_def)
qed

text \<open>
  C5 as stated fails. For the object path \<^verbatim>\<open>photo.png\<close> and an image classified as
  inappropriate, the run ends in a failure only after the blob has been replaced by its
  blurred version.
\<close>

theorem blob_overwritten_without_message_id:
  "messageId_of (object_name flat_object) = None \<and>
   inappropriate unsafe_annotation \<and>
   storage demo_world ''photo.png'' = Some ''pixels'' \<and>
   storage (snd (blurOffensiveImages ok_services flat_object demo_world)) ''photo.png''
     = Some ''blurred pixels'' \<and>
   fst (blurOffensiveImages ok_services flat_object demo_world) = Inl InvalidArgument"
  by (simp add: ok_services_def unsafe_annotation_def flat_object_def demo_world_def
        model_defs)

text \<open>
  C9. For every classifier result whose adult and violence values are not among the six
  level names (an unknown name, or no value), the lookup in the table gives no number,
  both comparisons with LIKELY are false, and \<open>blurOffensiveImages\<close> takes the safe
  branch: no download, no upload, no update, bucket and messages as before.
\<close>

theorem unrecognised_likelihood_is_safe:
  assumes "safeSearchDetection svc (imageUri_of obj) = Inr (Some r)"
      and "adult r \<notin> Some ` set (map fst Likelihood_table)"
      and "violence r \<notin> Some ` set (map fst Likelihood_table)"
  shows "Likelihood (adult r) = None \<and> Likelihood (violence r) = None \<and>
         \<not> js_ge (Likelihood (adult r)) (Likelihood (Some ''LIKELY'')) \<and>
         \<not> js_ge (Likelihood (violence r)) (Likelihood (Some ''LIKELY'')) \<and>
         blurOffensiveImages svc obj w =
           (Inr (), w\<lparr>trace := trace w @
              [SafeSearchDetection (imageUri_of obj),
               ConsoleLog [''The image'', object_name obj, ''has been detected as OK.'']]\<rparr>) \<and>
         storage (snd (blurOffensiveImages svc obj w)) = storage w \<and>
         messages (snd (blurOffensiveImages svc obj w)) = messages w \<and>
         count_calls is_download (snd (blurOffensiveImages svc obj w))
           = count_calls is_download w \<and>
         count_calls is_upload (snd (blurOffensiveImages svc obj w))
           = count_calls is_upload w \<and>
         count_calls is_update (snd (blurOffensiveImages svc obj w))
           = count_calls is_update w"
proof -
  have a: "Likelihood (adult r) = None" and v: "Likelihood (violence r) = None"
    using assms(2,3) by (simp_all add: Likelihood_unrecognised)
  then have "\<not> inappropriate r"
    by (simp add: inappropriate_def js_ge_def)
  from safe_branch [OF assms(1) this, of w] a v show ?thesis
    by (simp add: count_calls_def js_ge_def)
qed

theorem unrecognised_likelihood_is_safe_witness:
  "adult odd_annotation \<notin> Some ` set (map fst Likelihood_table) \<and>
   violence odd_annotation \<notin> Some ` set (map fst Likelihood_table) \<and>
   blurOffensiveImages odd_services photo_object demo_world =
     (Inr (), demo_world\<lparr>trace :=
        [SafeSearchDetection ''gs://friendlychat/images/msg123/photo.png'',
         ConsoleLog [''The image'', ''images/msg123/photo.png'',
                     ''has been detected as OK.'']]\<rparr>)"
proof -
  have h1: "safeSearchDetection odd_services (imageUri_of photo_object)
              = Inr (Some odd_annotation)"
    by (simp add: odd_services_def)
  have h2: "adult odd_annotation \<notin> Some ` set (map fst Likelihood_table)"
    by (simp add: odd_annotation_def Likelihood_table_def)
  have h3: "violence odd_annotation \<notin> Some ` set (map fst Likelihood_table)"
    by (simp add: odd_annotation_def Likelihood_table_def)
  from unrecognised_likelihood_is_safe [OF h1 h2 h3, of demo_world] h2 h3 show ?thesis
    by (simp add: demo_world_def photo_object_def imageUri_of_def)
qed

section \<open>Notification fan-out\<close>

text \<open>
  C3, evaluated where it fails. Three tokens A, B and C are registered; the dispatcher
  reports A as not registered and B as invalid, and delivers to C. The two deletes that
  \<open>cleanupTokens\<close> issues go to the collection of the messages, and the collection of
  the tokens still holds A, B and C afterwards.
\<close>

theorem cleanup_deletes_from_messages:
  "fst (sendNotifications stale_services posted_message demo_world) = Inr () \<and>
   fcmTokens demo_world = [''A'', ''B'', ''C''] \<and>
   fcmTokens (snd (sendNotifications stale_services posted_message demo_world))
     = [''A'', ''B'', ''C''] \<and>
   filter is_delete (trace (snd (sendNotifications stale_services posted_message demo_world)))
     = [DocDelete ''messages'' ''A'', DocDelete ''messages'' ''B'']"
  by (simp add: stale_services_def stale_results_def ok_services_def demo_world_def
        posted_message_def sendNotifications_def get_tokens_def send_to_device_def
        cleanupTokens_def delete_doc_def notification_payload_def io_defs nth_opt_def
        template_str_def upt_rec)

text \<open>
  C6. The body of the notification payload is the empty string when the text of the
  message is absent or has length 0, the text itself when its length is at most 100, and
  its first 97 characters followed by three dots when its length exceeds 100.
\<close>

theorem payload_body_by_length:
  "(text_field data = None \<or> (\<exists>t. text_field data = Some t \<and> length t = 0)
      \<longrightarrow> body (notification_payload svc data) = []) \<and>
   (\<forall>t. text_field data = Some t \<and> length t \<le> 100
      \<longrightarrow> body (notification_payload svc data) = t) \<and>
   (\<forall>t. text_field data = Some t \<and> 100 < length t
      \<longrightarrow> body (notification_payload svc data) = take 97 t @ ''...'')"
  by (auto simp: notification_payload_def truthy_def)

theorem payload_body_by_length_witness:
  "100 < length (replicate 101 CHR ''x'') \<and>
   body (notification_payload ok_services
           (posted_message\<lparr>text_field := Some (replicate 101 CHR ''x'')\<rparr>))
     = replicate 97 CHR ''x'' @ ''...'' \<and>
   length ''hello'' \<le> 100 \<and>
   body (notification_payload ok_services (posted_message\<lparr>text_field := Some ''hello''\<rparr>))
     = ''hello'' \<and>
   body (notification_payload ok_services (posted_message\<lparr>text_field := None\<rparr>)) = []"
  using payload_body_by_length
          [of "posted_message\<lparr>text_field := Some (replicate 101 CHR ''x'')\<rparr>" ok_services]
        payload_body_by_length [of "posted_message\<lparr>text_field := Some ''hello''\<rparr>" ok_services]
        payload_body_by_length [of "posted_message\<lparr>text_field := None\<rparr>" ok_services]
  by simp

text \<open>
  C7. When the collection of device tokens is empty, \<open>sendNotifications\<close> only reads
  that collection: the dispatcher is not called and no delete is issued.
\<close>

theorem no_tokens_no_dispatch:
  assumes "fcmTokens w = []"
  shows "snd (sendNotifications svc data w) = record_event (CollectionGet ''fcmTokens'') w \<and>
         count_calls is_send (snd (sendNotifications svc data w)) = count_calls is_send w \<and>
         count_calls is_delete (snd (sendNotifications svc data w)) = count_calls is_delete w"
  using assms
  by (auto simp: sendNotifications_def get_tokens_def record_event_def count_calls_def Let_def
        split: option.splits)

theorem no_tokens_no_dispatch_witness:
  "fcmTokens (demo_world\<lparr>fcmTokens := []\<rparr>) = [] \<and>
   trace (snd (sendNotifications ok_services posted_message (demo_world\<lparr>fcmTokens := []\<rparr>)))
     = [CollectionGet ''fcmTokens'']"
  using no_tokens_no_dispatch [of "demo_world\<lparr>fcmTokens := []\<rparr>" ok_services posted_message]
  by (simp add: record_event_def demo_world_def)

text \<open>
  C10. For every message whose text is present and is the empty string, the title of
  the payload is the author's name followed by \<^verbatim>\<open> posted an image\<close>, so it ends with
  \<^verbatim>\<open>posted an image\<close> and not with \<^verbatim>\<open>posted a message\<close>, and the body is empty.
\<close>

theorem empty_text_is_image_only:
  assumes "text_field data = Some []"
  shows "title (notification_payload svc data)
           = template_str (name data) @ '' posted an image'' \<and>
         suffix ''posted an image'' (title (notification_payload svc data)) \<and>
         \<not> suffix ''posted a message'' (title (notification_payload svc data)) \<and>
         body (notification_payload svc data) = []"
  using assms by (auto simp: notification_payload_def truthy_def suffix_def)

theorem empty_text_is_image_only_witness:
  "text_field (posted_message\<lparr>text_field := Some []\<rparr>) = Some [] \<and>
   title (notification_payload ok_services (posted_message\<lparr>text_field := Some []\<rparr>))
     = ''Ada posted an image'' \<and>
   body (notification_payload ok_services (posted_message\<lparr>text_field := Some []\<rparr>)) = []"
  using empty_text_is_image_only [of "posted_message\<lparr>text_field := Some []\<rparr>" ok_services]
  by (simp add: posted_message_def template_str_def)

section \<open>Welcome message\<close>

text \<open>
  C8 (as amended). For every new user whose display name is absent or empty,
  \<open>addWelcomeMessages\<close> adds a message whose text is exactly
  \<^verbatim>\<open>Anonymous signed in for the first time! Welcome!\<close>; for a user with a non-empty
  display name d the text is d followed by \<^verbatim>\<open> signed in for the first time! Welcome!\<close>.
  The message is the one document the handler adds.
\<close>

theorem welcome_text:
  "(displayName user = None \<or> displayName user = Some []
      \<longrightarrow> text_field (welcome_message svc user)
            = Some ''Anonymous signed in for the first time! Welcome!'') \<and>
   (\<forall>d. displayName user = Some d \<and> d \<noteq> []
      \<longrightarrow> text_field (welcome_message svc user)
            = Some (d @ '' signed in for the first time! Welcome!'')) \<and>
   service_calls (snd (addWelcomeMessages svc user w))
     = service_calls w @ [DocAdd ''messages'' (welcome_message svc user)] \<and>
   (add_fault svc = None
      \<longrightarrow> messages (snd (addWelcomeMessages svc user w)) (autoId svc)
            = Some (welcome_message svc user))"
  by (auto simp: welcome_message_def or_default_def addWelcomeMessages_def service_calls_def
        console_log_def add_message_def record_event_def Let_def split: option.splits)

theorem welcome_text_witness:
  "text_field (welcome_message ok_services \<lparr>displayName = Some ''Ada''\<rparr>)
     = Some ''Ada signed in for the first time! Welcome!'' \<and>
   text_field (welcome_message ok_services \<lparr>displayName = None\<rparr>)
     = Some ''Anonymous signed in for the first time! Welcome!'' \<and>
   messages (snd (addWelcomeMessages ok_services \<lparr>displayName = Some ''Ada''\<rparr> demo_world))
     ''auto1''
     = Some (welcome_message ok_services \<lparr>displayName = Some ''Ada''\<rparr>)"
  using welcome_text [of "\<lparr>displayName = Some ''Ada''\<rparr>" ok_services demo_world]
        welcome_text [of "\<lparr>displayName = None\<rparr>" ok_services demo_world]
  by (simp add: ok_services_def)

text \<open>
  C8 as stated fails for a display name that is present and empty: the text begins with
  \<^verbatim>\<open>Anonymous\<close>, not with the empty name.
\<close>

theorem welcome_text_empty_display_name:
  "text_field (welcome_message ok_services \<lparr>displayName = Some []\<rparr>)
     = Some ''Anonymous signed in for the first time! Welcome!'' \<and>
   text_field (welcome_message ok_services \<lparr>displayName = Some []\<rparr>)
     \<noteq> Some ([] @ '' signed in for the first time! Welcome!'')"
  by (simp add: welcome_message_def or_default_def)

end
